theory Spec2Isabelle
  imports Main "HOL-Library.Finite_Map"
begin

section \<open>The device registry of wake-on-demand (main.go)\<close>

text \<open>
  The server keeps one process-wide map \<open>espMap\<close> from device id to a pointer to an
  \<open>ESP\<close> struct. Every pointer is allocated by \<open>registerHandler\<close> for one key and is
  stored nowhere else, so no two keys share a struct and the map is modelled by value, as a
  finite map from ids to records. Each handler is a function from the request, the readings
  of the clock it takes and the registry before, to the response and the registry after.
  What the handlers write to the log is left out of the model.
\<close>

subsection \<open>Time\<close>

text \<open>
  Instants and durations are counted in nanoseconds. \<open>Sub\<close> is \<open>Time.Sub\<close> of the
  standard library, which saturates at the least and the greatest \<open>Duration\<close> (a signed
  64-bit count); \<open>Since t\<close> is \<open>time.Now().Sub(t)\<close>.
\<close>

type_synonym Time = int
type_synonym Duration = int

definition maxDuration :: Duration where
  "maxDuration = 2 ^ 63 - 1"

definition minDuration :: Duration where
  "minDuration = - (2 ^ 63)"

definition Sub :: "Time \<Rightarrow> Time \<Rightarrow> Duration" where
  "Sub t u =
     (let d = t - u
      in if maxDuration < d then maxDuration
         else if d < minDuration then minDuration
         else d)"

definition Since :: "Time \<Rightarrow> Time \<Rightarrow> Duration" where
  "Since now t = Sub now t"

subsection \<open>Data\<close>

type_synonym ESPCommand = string

definition CommandPulse :: ESPCommand where "CommandPulse = ''pulse''"
definition CommandForce :: ESPCommand where "CommandForce = ''force''"
definition CommandStatus :: ESPCommand where "CommandStatus = ''status''"

definition VERSION :: string where "VERSION = ''1.0.0''"

record ESP =
  ID :: string
  Command :: ESPCommand
  LastSeen :: Time
  Online :: bool

type_synonym registry = "(string, ESP) fmap"

text \<open>
  A request as the handlers read it: the method, the \<open>id\<close> parameter of the query string
  (empty when there is none, as \<open>Query().Get\<close> returns it), and what decoding the JSON body
  into the handler's own struct gives (\<open>None\<close> when the decoder reports an error).
\<close>

record 'b request =
  Method :: string
  QueryID :: string
  Body :: "'b option"

datatype ESPInfo = ESPInfo string bool Duration

text \<open>
  A response is the status code and the body. A JSON object of strings is listed in the
  order of its keys, as the encoder writes a Go map. The list of devices is a set, since a
  Go map is ranged over in no fixed order; each entry carries the elapsed duration that the
  handler goes on to round to seconds and print.
\<close>

datatype payload =
    Text string
  | JsonStrings "(string \<times> string) list"
  | JsonESPs "ESPInfo fset"
  | JsonHealth string string nat nat

record response =
  Status :: nat
  Payload :: payload

abbreviation MethodPost :: string where "MethodPost \<equiv> ''POST''"
abbreviation MethodGet :: string where "MethodGet \<equiv> ''GET''"

abbreviation StatusOK :: nat where "StatusOK \<equiv> 200"
abbreviation StatusBadRequest :: nat where "StatusBadRequest \<equiv> 400"
abbreviation StatusNotFound :: nat where "StatusNotFound \<equiv> 404"
abbreviation StatusMethodNotAllowed :: nat where "StatusMethodNotAllowed \<equiv> 405"
abbreviation StatusServiceUnavailable :: nat where "StatusServiceUnavailable \<equiv> 503"

text \<open>\<open>http.Error\<close> writes the code and the message followed by a newline.\<close>

definition Error :: "string \<Rightarrow> nat \<Rightarrow> response" where
  "Error msg code = \<lparr>Status = code, Payload = Text (msg @ [CHR 0x0A])\<rparr>"

definition Encode :: "nat \<Rightarrow> (string \<times> string) list \<Rightarrow> response" where
  "Encode code obj = \<lparr>Status = code, Payload = JsonStrings obj\<rparr>"

subsection \<open>The handlers\<close>

definition registerHandler :: "string request \<Rightarrow> Time \<Rightarrow> registry \<Rightarrow> response \<times> registry" where
  "registerHandler r now espMap =
     (if Method r \<noteq> MethodPost then (Error ''only POST allowed'' StatusMethodNotAllowed, espMap)
      else case Body r of
        None \<Rightarrow> (Error ''invalid JSON'' StatusBadRequest, espMap)
      | Some dataID \<Rightarrow>
          if dataID = '''' then (Error ''id cannot be empty'' StatusBadRequest, espMap)
          else
            (Encode StatusOK [(''status'', ''registered'')],
             case fmlookup espMap dataID of
               None \<Rightarrow>
                 fmupd dataID \<lparr>ID = dataID, Command = '''', LastSeen = now, Online = True\<rparr> espMap
             | Some esp \<Rightarrow>
                 fmupd dataID (esp\<lparr>LastSeen := now, Online := True\<rparr>) espMap))"

definition commandHandler :: "'b request \<Rightarrow> Time \<Rightarrow> registry \<Rightarrow> response \<times> registry" where
  "commandHandler r now espMap =
     (let id = QueryID r
      in if id = '''' then (Error ''missing id'' StatusBadRequest, espMap)
         else case fmlookup espMap id of
           None \<Rightarrow> (Error ''ESP not registered'' StatusNotFound, espMap)
         | Some esp \<Rightarrow>
             (let cmd = Command esp
              in (Encode StatusOK [(''command'', cmd)],
                  fmupd id (esp\<lparr>LastSeen := now, Online := True, Command := ''''\<rparr>) espMap)))"

definition setCommandHandler :: "(string \<times> string) request \<Rightarrow> registry \<Rightarrow> response \<times> registry" where
  "setCommandHandler r espMap =
     (if Method r \<noteq> MethodPost then (Error ''only POST allowed'' StatusMethodNotAllowed, espMap)
      else case Body r of
        None \<Rightarrow> (Error ''invalid JSON'' StatusBadRequest, espMap)
      | Some (dataID, dataCommand) \<Rightarrow>
          (case fmlookup espMap dataID of
             None \<Rightarrow> (Error ''ESP not registered'' StatusNotFound, espMap)
           | Some esp \<Rightarrow>
               if \<not> Online esp
               then (Error (''ESP '' @ [CHR 0x27] @ dataID @ [CHR 0x27] @ '' is offline'')
                       StatusServiceUnavailable, espMap)
               else
                 (Encode StatusOK
                    [(''command'', dataCommand), (''id'', dataID), (''status'', ''queued'')],
                  fmupd dataID (esp\<lparr>Command := dataCommand\<rparr>) espMap)))"

text \<open>
  \<open>listHandler\<close> reads the clock once for each device it visits; \<open>clock id\<close> is the
  reading taken at the entry of \<open>id\<close>.
\<close>

definition listHandler :: "'b request \<Rightarrow> (string \<Rightarrow> Time) \<Rightarrow> registry \<Rightarrow> response \<times> registry" where
  "listHandler r clock espMap =
     (\<lparr>Status = StatusOK,
       Payload = JsonESPs
         ((\<lambda>(id, esp). ESPInfo id (Online esp) (Since (clock id) (LastSeen esp)))
            |`| fset_of_fmap espMap)\<rparr>,
      espMap)"

definition healthHandler :: "'b request \<Rightarrow> registry \<Rightarrow> response \<times> registry" where
  "healthHandler r espMap =
     (let espCount = fcard (fmdom espMap);
          onlineCount = fcard (ffilter (\<lambda>(id, esp). Online esp) (fset_of_fmap espMap))
      in (\<lparr>Status = StatusOK, Payload = JsonHealth ''ok'' VERSION espCount onlineCount\<rparr>,
          espMap))"

subsection \<open>The monitor\<close>

text \<open>
  \<open>monitorESPs\<close> runs its loop body at every tick of a ten-second ticker, for as long as
  the process lives. \<open>monitorPass\<close> is one run of the body: one reading of the clock, then
  every device's flag recomputed from it.
\<close>

definition monitorPass :: "Duration \<Rightarrow> Time \<Rightarrow> registry \<Rightarrow> registry" where
  "monitorPass timeoutDuration now espMap =
     fmmap (\<lambda>esp. esp\<lparr>Online := Sub now (LastSeen esp) < timeoutDuration\<rparr>) espMap"

subsection \<open>Operations of the server\<close>

text \<open>
  Everything that reads or writes the registry while the server runs: a request to one of
  the five endpoints, or a pass of the monitor. \<open>step\<close> is the registry after one of
  them, \<open>run\<close> the registry after a sequence of them.
\<close>

datatype event =
    RegisterEv "string request" Time
  | PollEv "unit request" Time
  | SetCommandEv "(string \<times> string) request"
  | ListEv "unit request" "string \<Rightarrow> Time"
  | HealthEv "unit request"
  | MonitorEv Time

fun step :: "Duration \<Rightarrow> event \<Rightarrow> registry \<Rightarrow> registry" where
  "step timeoutDuration (RegisterEv r now) espMap = snd (registerHandler r now espMap)"
| "step timeoutDuration (PollEv r now) espMap = snd (commandHandler r now espMap)"
| "step timeoutDuration (SetCommandEv r) espMap = snd (setCommandHandler r espMap)"
| "step timeoutDuration (ListEv r clock) espMap = snd (listHandler r clock espMap)"
| "step timeoutDuration (HealthEv r) espMap = snd (healthHandler r espMap)"
| "step timeoutDuration (MonitorEv now) espMap = monitorPass timeoutDuration now espMap"

fun run :: "Duration \<Rightarrow> event list \<Rightarrow> registry \<Rightarrow> registry" where
  "run timeoutDuration [] espMap = espMap"
| "run timeoutDuration (ev # evs) espMap = run timeoutDuration evs (step timeoutDuration ev espMap)"

text \<open>
  The requests that the operations of the specification stand for: \<open>Register(id)\<close> is a
  POST to /register with body \<open>{"id": id}\<close>, \<open>SetCommand(id, c)\<close> a POST to /set-command
  with body \<open>{"id": id, "command": c}\<close>, \<open>PollAndClear(id)\<close> a GET of /command?id=id.
\<close>

definition Register :: "string \<Rightarrow> string request" where
  "Register espID = \<lparr>Method = MethodPost, QueryID = '''', Body = Some espID\<rparr>"

definition SetCommand :: "string \<Rightarrow> string \<Rightarrow> (string \<times> string) request" where
  "SetCommand espID c = \<lparr>Method = MethodPost, QueryID = '''', Body = Some (espID, c)\<rparr>"

definition PollAndClear :: "string \<Rightarrow> unit request" where
  "PollAndClear espID = \<lparr>Method = MethodGet, QueryID = espID, Body = None\<rparr>"

subsection \<open>Two registries used as examples\<close>

text \<open>
  \<open>oneOnline\<close> holds one device that is online with nothing pending; \<open>twoDevices\<close>
  holds a device that is online and one that is offline with a command still pending.
\<close>

definition oneOnline :: registry where
  "oneOnline =
     fmupd ''bedroom'' \<lparr>ID = ''bedroom'', Command = '''', LastSeen = 7, Online = True\<rparr> fmempty"

definition twoDevices :: registry where
  "twoDevices =
     fmupd ''bedroom'' \<lparr>ID = ''bedroom'', Command = '''', LastSeen = 7, Online = True\<rparr>
       (fmupd ''attic'' \<lparr>ID = ''attic'', Command = ''force'', LastSeen = 2, Online = False\<rparr>
          fmempty)"

subsection \<open>Contact and the order of monitor passes\<close>

text \<open>
  \<open>contacts i ev\<close>: the operation is a contact of device \<open>i\<close>, that is a request that
  refreshes its \<open>LastSeen\<close> and sets it online: a POST to /register that names \<open>i\<close>, or a
  poll for \<open>i\<close>. \<open>notBefore n ev\<close>: if the operation is a monitor pass, its reading of
  the clock is not earlier than \<open>n\<close>.
\<close>

fun contacts :: "string \<Rightarrow> event \<Rightarrow> bool" where
  "contacts i (RegisterEv r now) = (Method r = MethodPost \<and> Body r = Some i \<and> i \<noteq> '''')"
| "contacts i (PollEv q now) = (QueryID q = i \<and> i \<noteq> '''')"
| "contacts i ev = False"

fun notBefore :: "Time \<Rightarrow> event \<Rightarrow> bool" where
  "notBefore n (MonitorEv now) = (n \<le> now)"
| "notBefore n ev = True"

section \<open>Properties\<close>

lemmas handler_defs =
  registerHandler_def commandHandler_def setCommandHandler_def listHandler_def healthHandler_def
  monitorPass_def Register_def SetCommand_def PollAndClear_def Error_def Encode_def
  Sub_def Since_def maxDuration_def minDuration_def Let_def fmmap_fmupd

subsection \<open>Registration\<close>

text \<open>
  C2. For every non-empty id, \<open>Register(id)\<close> succeeds. If the id is absent, a record is
  created with no pending command, \<open>LastSeen = now\<close> and \<open>Online = True\<close>. If the id is
  present, its record gets \<open>LastSeen = now\<close> and \<open>Online = True\<close> and keeps its pending
  command. Every other id keeps its record, and the keys after are the keys before with the
  id added, so no second record for the id appears.
\<close>

theorem C2_register:
  assumes "i \<noteq> ''''"
  shows "fst (registerHandler (Register i) now m) = Encode StatusOK [(''status'', ''registered'')]
       \<and> (fmlookup m i = None \<longrightarrow>
            fmlookup (snd (registerHandler (Register i) now m)) i
              = Some \<lparr>ID = i, Command = '''', LastSeen = now, Online = True\<rparr>)
       \<and> (\<forall>e. fmlookup m i = Some e \<longrightarrow>
            fmlookup (snd (registerHandler (Register i) now m)) i
              = Some \<lparr>ID = ID e, Command = Command e, LastSeen = now, Online = True\<rparr>)
       \<and> (\<forall>j. j \<noteq> i \<longrightarrow> fmlookup (snd (registerHandler (Register i) now m)) j = fmlookup m j)
       \<and> fmdom (snd (registerHandler (Register i) now m)) = finsert i (fmdom m)"
  using assms by (auto simp: registerHandler_def Register_def split: option.splits)

theorem C2_register_witness:
  "''attic'' \<noteq> ''''
 \<and> fmlookup twoDevices ''attic''
      = Some \<lparr>ID = ''attic'', Command = ''force'', LastSeen = 2, Online = False\<rparr>
 \<and> fmlookup (snd (registerHandler (Register ''attic'') 50 twoDevices)) ''attic''
      = Some \<lparr>ID = ''attic'', Command = ''force'', LastSeen = 50, Online = True\<rparr>
 \<and> fmlookup oneOnline ''attic'' = None
 \<and> fmlookup (snd (registerHandler (Register ''attic'') 50 oneOnline)) ''attic''
      = Some \<lparr>ID = ''attic'', Command = '''', LastSeen = 50, Online = True\<rparr>"
proof -
  have h: "''attic'' \<noteq> ''''" by simp
  show ?thesis
    using h C2_register [OF h, of 50 twoDevices] C2_register [OF h, of 50 oneOnline]
    by (simp add: twoDevices_def oneOnline_def)
qed

subsection \<open>Setting a command\<close>

text \<open>
  C3. For every id and every command string \<open>c\<close>, \<open>SetCommand(id, c)\<close> answers 404 and
  changes nothing when the id is not in the registry, answers 503 and changes nothing when
  the id is present with its online flag false, and otherwise answers 200 with \<open>c\<close> echoed
  and stores \<open>c\<close> as it is in the pending command, whatever was pending before and whether
  or not \<open>c\<close> is one of pulse, force and status.
\<close>

theorem C3_setCommand:
  "(fmlookup m i = None \<longrightarrow>
      setCommandHandler (SetCommand i c) m = (Error ''ESP not registered'' StatusNotFound, m))
 \<and> (\<forall>e. fmlookup m i = Some e \<and> \<not> Online e \<longrightarrow>
      setCommandHandler (SetCommand i c) m
        = (Error (''ESP '' @ [CHR 0x27] @ i @ [CHR 0x27] @ '' is offline'')
             StatusServiceUnavailable, m))
 \<and> (\<forall>e. fmlookup m i = Some e \<and> Online e \<longrightarrow>
      setCommandHandler (SetCommand i c) m
        = (Encode StatusOK [(''command'', c), (''id'', i), (''status'', ''queued'')],
           fmupd i (e\<lparr>Command := c\<rparr>) m))"
  by (simp add: setCommandHandler_def SetCommand_def)

theorem C3_setCommand_witness:
  "fmlookup twoDevices ''unknown-device'' = None
 \<and> Status (fst (setCommandHandler (SetCommand ''unknown-device'' ''pulse'') twoDevices))
      = StatusNotFound
 \<and> Status (fst (setCommandHandler (SetCommand ''attic'' ''pulse'') twoDevices))
      = StatusServiceUnavailable
 \<and> fst (setCommandHandler (SetCommand ''bedroom'' ''reboot now'') twoDevices)
      = Encode StatusOK
          [(''command'', ''reboot now''), (''id'', ''bedroom''), (''status'', ''queued'')]
 \<and> fmlookup (snd (setCommandHandler (SetCommand ''bedroom'' ''reboot now'') twoDevices)) ''bedroom''
      = Some \<lparr>ID = ''bedroom'', Command = ''reboot now'', LastSeen = 7, Online = True\<rparr>"
  using
    C3_setCommand [of twoDevices "''unknown-device''" "''pulse''"]
    C3_setCommand [of twoDevices "''attic''" "''pulse''"]
    C3_setCommand [of twoDevices "''bedroom''" "''reboot now''"]
  by (simp add: twoDevices_def Error_def)

text \<open>
  A request to /set-command that is answered 200 carried a body naming a device that was
  present and online, and it rewrote that device's pending command and nothing else.
\<close>

lemma setCommandHandler_ok:
  assumes "Status (fst (setCommandHandler r m)) = StatusOK"
  obtains i c e where "Body r = Some (i, c)" and "fmlookup m i = Some e" and "Online e"
    and "snd (setCommandHandler r m) = fmupd i (e\<lparr>Command := c\<rparr>) m"
  using assms
  by (auto simp: setCommandHandler_def Error_def Encode_def
           split: if_splits option.splits prod.splits)

text \<open>
  C9. A successful \<open>SetCommand(id, c)\<close> changes only the pending command of the record of
  \<open>id\<close>: that record keeps its \<open>LastSeen\<close> and \<open>Online\<close> (and \<open>ID\<close>), so setting a
  command is no contact and does not refresh liveness; every other device keeps its record,
  and no record is added or removed.
\<close>

theorem C9_setCommand_frame:
  assumes "Status (fst (setCommandHandler r m)) = StatusOK"
  shows "\<exists>i c e. Body r = Some (i, c) \<and> fmlookup m i = Some e
           \<and> fmlookup (snd (setCommandHandler r m)) i
               = Some \<lparr>ID = ID e, Command = c, LastSeen = LastSeen e, Online = Online e\<rparr>
           \<and> (\<forall>j. j \<noteq> i \<longrightarrow> fmlookup (snd (setCommandHandler r m)) j = fmlookup m j)
           \<and> fmdom (snd (setCommandHandler r m)) = fmdom m"
proof -
  from assms obtain i c e where b: "Body r = Some (i, c)" and l: "fmlookup m i = Some e"
    and s: "snd (setCommandHandler r m) = fmupd i (e\<lparr>Command := c\<rparr>) m"
    by (rule setCommandHandler_ok)
  have "fmlookup (snd (setCommandHandler r m)) i
          = Some \<lparr>ID = ID e, Command = c, LastSeen = LastSeen e, Online = Online e\<rparr>"
    by (simp add: s)
  moreover have "\<forall>j. j \<noteq> i \<longrightarrow> fmlookup (snd (setCommandHandler r m)) j = fmlookup m j"
    by (simp add: s)
  moreover have "fmdom (snd (setCommandHandler r m)) = fmdom m"
    using l by (simp add: s fmdomI finsert_absorb)
  ultimately show ?thesis using b l by blast
qed

theorem C9_setCommand_frame_witness:
  "Status (fst (setCommandHandler (SetCommand ''bedroom'' ''pulse'') twoDevices)) = StatusOK
 \<and> fmlookup (snd (setCommandHandler (SetCommand ''bedroom'' ''pulse'') twoDevices)) ''bedroom''
      = Some \<lparr>ID = ''bedroom'', Command = ''pulse'', LastSeen = 7, Online = True\<rparr>
 \<and> fmlookup (snd (setCommandHandler (SetCommand ''bedroom'' ''pulse'') twoDevices)) ''attic''
      = fmlookup twoDevices ''attic''"
proof -
  let ?m' = "snd (setCommandHandler (SetCommand ''bedroom'' ''pulse'') twoDevices)"
  have h: "Status (fst (setCommandHandler (SetCommand ''bedroom'' ''pulse'') twoDevices)) = StatusOK"
    by (simp add: setCommandHandler_def SetCommand_def Encode_def twoDevices_def)
  from C9_setCommand_frame [OF h] obtain i c e where
    b: "Body (SetCommand ''bedroom'' ''pulse'') = Some (i, c)"
    and l: "fmlookup twoDevices i = Some e"
    and n: "fmlookup ?m' i = Some \<lparr>ID = ID e, Command = c, LastSeen = LastSeen e, Online = Online e\<rparr>"
    and o: "\<forall>j. j \<noteq> i \<longrightarrow> fmlookup ?m' j = fmlookup twoDevices j"
    by blast
  from b have i: "i = ''bedroom''" and c: "c = ''pulse''"
    by (simp_all add: SetCommand_def)
  from l i have e: "e = \<lparr>ID = ''bedroom'', Command = '''', LastSeen = 7, Online = True\<rparr>"
    by (simp add: twoDevices_def)
  from o i have "fmlookup ?m' ''attic'' = fmlookup twoDevices ''attic''"
    by simp
  with h n i c e show ?thesis by simp
qed

subsection \<open>Failures\<close>

text \<open>
  C10. A request to /register, /command or /set-command that is not answered 200 leaves the
  registry as it was. /register fails on a method other than POST, on a body that does not
  decode and on an empty id; /command fails on a missing id and on an id that is not
  registered; /set-command fails on a method other than POST, on a body that does not
  decode, on an id that is not registered and on a device that is offline.
\<close>

theorem C10_failure_leaves_registry:
  "(Status (fst (registerHandler r now m)) \<noteq> StatusOK \<longrightarrow> snd (registerHandler r now m) = m)
 \<and> (Status (fst (commandHandler q now m)) \<noteq> StatusOK \<longrightarrow> snd (commandHandler q now m) = m)
 \<and> (Status (fst (setCommandHandler s m)) \<noteq> StatusOK \<longrightarrow> snd (setCommandHandler s m) = m)
 \<and> (Status (fst (registerHandler r now m)) \<noteq> StatusOK
      \<longleftrightarrow> Method r \<noteq> MethodPost \<or> Body r = None \<or> Body r = Some '''')
 \<and> (Status (fst (commandHandler q now m)) \<noteq> StatusOK
      \<longleftrightarrow> QueryID q = '''' \<or> fmlookup m (QueryID q) = None)
 \<and> (Status (fst (setCommandHandler s m)) \<noteq> StatusOK
      \<longleftrightarrow> Method s \<noteq> MethodPost \<or> Body s = None
          \<or> (\<exists>i c. Body s = Some (i, c)
                \<and> (case fmlookup m i of None \<Rightarrow> True | Some e \<Rightarrow> \<not> Online e)))"
  by (auto simp: registerHandler_def commandHandler_def setCommandHandler_def Error_def Encode_def
        Let_def split: if_splits option.splits prod.splits)

theorem C10_failure_leaves_registry_witness:
  "Status (fst (registerHandler (Register '''') 9 twoDevices)) \<noteq> StatusOK
 \<and> snd (registerHandler (Register '''') 9 twoDevices) = twoDevices
 \<and> Status (fst (commandHandler (PollAndClear ''cellar'') 9 twoDevices)) \<noteq> StatusOK
 \<and> snd (commandHandler (PollAndClear ''cellar'') 9 twoDevices) = twoDevices
 \<and> Status (fst (setCommandHandler (SetCommand ''attic'' ''pulse'') twoDevices)) \<noteq> StatusOK
 \<and> snd (setCommandHandler (SetCommand ''attic'' ''pulse'') twoDevices) = twoDevices"
  using C10_failure_leaves_registry
    [of "Register ''''" 9 twoDevices "PollAndClear ''cellar''" "SetCommand ''attic'' ''pulse''"]
  by (simp add: Register_def PollAndClear_def SetCommand_def twoDevices_def)

subsection \<open>Set, set, poll\<close>


text \<open>
  No sequence of operations registers the empty id where it was not registered before, so
  the ids of the devices that the server comes to hold are non-empty.
\<close>

lemma step_no_empty_id:
  "fmlookup m '''' = None \<Longrightarrow> fmlookup (step t ev m) '''' = None"
  by (cases ev)
     (auto simp: registerHandler_def commandHandler_def setCommandHandler_def listHandler_def
        healthHandler_def monitorPass_def Let_def split: option.splits prod.splits)

lemma run_no_empty_id:
  "fmlookup m '''' = None \<Longrightarrow> fmlookup (run t evs m) '''' = None"
  by (induction evs arbitrary: m) (simp_all add: step_no_empty_id)



subsection \<open>Register, then poll\<close>

text \<open>
  C5, as stated: \<open>Register(id)\<close> followed by \<open>PollAndClear(id)\<close> returns no command from
  every prior state, also one where \<open>id\<close> is registered with a command pending. It fails in
  just that state: re-registering keeps the pending command and the poll delivers it.
\<close>

theorem C5_pending_counterexample:
  "fst (commandHandler (PollAndClear ''a'') 2
         (snd (registerHandler (Register ''a'') 1
            (run 30 [RegisterEv (Register ''a'') 0, SetCommandEv (SetCommand ''a'' ''pulse'')]
               fmempty))))
     = Encode StatusOK [(''command'', ''pulse'')]
 \<and> fst (commandHandler (PollAndClear ''a'') 2
         (snd (registerHandler (Register ''a'') 1
            (run 30 [RegisterEv (Register ''a'') 0, SetCommandEv (SetCommand ''a'' ''pulse'')]
               fmempty))))
     \<noteq> Encode StatusOK [(''command'', '''')]"
  by (simp add: handler_defs)

text \<open>
  C5, amended: for every non-empty id and every prior registry, \<open>Register(id)\<close> followed by
  \<open>PollAndClear(id)\<close> returns the command that was pending for \<open>id\<close> before the
  \<open>Register\<close>; that is no command when \<open>id\<close> was not registered or had nothing pending.
\<close>

theorem C5_register_poll:
  assumes "i \<noteq> ''''"
  shows "fst (commandHandler (PollAndClear i) now' (snd (registerHandler (Register i) now m)))
           = Encode StatusOK
               [(''command'', case fmlookup m i of None \<Rightarrow> '''' | Some e \<Rightarrow> Command e)]"
  using assms
  by (simp add: registerHandler_def commandHandler_def Register_def PollAndClear_def
           split: option.splits)

theorem C5_register_poll_witness:
  "''cellar'' \<noteq> ''''
 \<and> fst (commandHandler (PollAndClear ''cellar'') 11
          (snd (registerHandler (Register ''cellar'') 10 twoDevices)))
      = Encode StatusOK [(''command'', '''')]
 \<and> fst (commandHandler (PollAndClear ''attic'') 11
          (snd (registerHandler (Register ''attic'') 10 twoDevices)))
      = Encode StatusOK [(''command'', ''force'')]"
proof -
  have h: "''cellar'' \<noteq> ''''" and h': "''attic'' \<noteq> ''''" by simp_all
  show ?thesis
    using h C5_register_poll [OF h, of 11 10 twoDevices] C5_register_poll [OF h', of 11 10 twoDevices]
    by (simp add: twoDevices_def)
qed

subsection \<open>Liveness and set-command\<close>

text \<open>
  C4, as stated: once the time since the last contact exceeds the timeout, \<open>SetCommand\<close>
  fails with 503 whether or not a monitor pass has run. It does not: the handler tests the
  stored flag and reads no clock. Here a device registers at time 0, the timeout is 30, no
  monitor pass runs, and a \<open>SetCommand\<close> at time 100 is answered 200.
\<close>

theorem C4_stale_flag_counterexample:
  "fmlookup (run 30 [RegisterEv (Register ''attic'') 0] fmempty) ''attic''
     = Some \<lparr>ID = ''attic'', Command = '''', LastSeen = 0, Online = True\<rparr>
 \<and> 30 < Sub 100 0
 \<and> fst (setCommandHandler (SetCommand ''attic'' ''force'')
          (run 30 [RegisterEv (Register ''attic'') 0] fmempty))
      = Encode StatusOK [(''command'', ''force''), (''id'', ''attic''), (''status'', ''queued'')]
 \<and> Status (fst (setCommandHandler (SetCommand ''attic'' ''force'')
                  (run 30 [RegisterEv (Register ''attic'') 0] fmempty)))
      \<noteq> StatusServiceUnavailable"
  by (simp add: handler_defs)

text \<open>
  The elapsed time grows with the clock, and a device that a monitor pass has found timed
  out stays offline, with its \<open>LastSeen\<close> and its pending command, through every operation
  that is no contact of it and no monitor pass with an earlier reading of the clock.
\<close>

lemma Sub_mono: "a \<le> b \<Longrightarrow> Sub a u \<le> Sub b u"
  by (simp add: Sub_def Let_def maxDuration_def minDuration_def)

lemma step_stays_offline:
  assumes "fmlookup m i = Some e" and "\<not> Online e" and "\<not> Sub n (LastSeen e) < t"
    and "\<not> contacts i ev" and "notBefore n ev"
  shows "\<exists>e'. fmlookup (step t ev m) i = Some e' \<and> \<not> Online e' \<and> LastSeen e' = LastSeen e
           \<and> Command e' = Command e"
proof (cases ev)
  case (RegisterEv r now)
  then show ?thesis using assms
    by (auto simp: registerHandler_def split: option.splits)
next
  case (PollEv q now)
  then show ?thesis using assms
    by (auto simp: commandHandler_def Let_def split: option.splits)
next
  case (SetCommandEv s)
  then show ?thesis using assms
    by (auto simp: setCommandHandler_def split: option.splits prod.splits)
next
  case (ListEv q clock)
  then show ?thesis using assms by (simp add: listHandler_def)
next
  case (HealthEv q)
  then show ?thesis using assms by (simp add: healthHandler_def Let_def)
next
  case (MonitorEv now)
  with assms have "n \<le> now" by simp
  then have "Sub n (LastSeen e) \<le> Sub now (LastSeen e)" by (rule Sub_mono)
  with assms(3) have "\<not> Sub now (LastSeen e) < t" by linarith
  with MonitorEv assms show ?thesis by (simp add: monitorPass_def)
qed

lemma run_stays_offline:
  "fmlookup m i = Some e \<Longrightarrow> \<not> Online e \<Longrightarrow> \<not> Sub n (LastSeen e) < t
     \<Longrightarrow> \<forall>ev \<in> set evs. \<not> contacts i ev \<and> notBefore n ev
     \<Longrightarrow> \<exists>e'. fmlookup (run t evs m) i = Some e' \<and> \<not> Online e' \<and> LastSeen e' = LastSeen e
           \<and> Command e' = Command e"
proof (induction evs arbitrary: m e)
  case Nil
  then show ?case by simp
next
  case (Cons ev evs)
  from Cons.prems(4) have ev: "\<not> contacts i ev" "notBefore n ev"
    and rest: "\<forall>ev \<in> set evs. \<not> contacts i ev \<and> notBefore n ev" by simp_all
  from step_stays_offline [OF Cons.prems(1,2,3) ev]
  obtain e1 where e1: "fmlookup (step t ev m) i = Some e1" "\<not> Online e1"
    "LastSeen e1 = LastSeen e" "Command e1 = Command e" by blast
  from Cons.prems(3) e1(3) have "\<not> Sub n (LastSeen e1) < t" by simp
  from Cons.IH [OF e1(1,2) this rest] e1(3,4) show ?case by simp
qed

text \<open>
  C4, amended: the online precondition of \<open>SetCommand\<close> is the stored online flag, not a
  value derived at call time: for a registered device, \<open>SetCommand(id, c)\<close> is answered 200
  when the stored flag is true and 503 when it is false, whatever the time. For every
  registered device id, if a monitor pass has run at a time \<open>n\<close> when the time since the
  device's last contact was not below the timeout, then after any sequence of operations
  in which the device is not contacted (no POST to /register naming it, no poll for it) and
  no monitor pass reads a clock earlier than \<open>n\<close>, \<open>SetCommand(id, c)\<close> fails with 503
  and changes nothing.
\<close>

theorem C4_offline_after_monitor:
  "(fmlookup m i = Some e \<and> Online e \<longrightarrow>
      Status (fst (setCommandHandler (SetCommand i c) m)) = StatusOK)
 \<and> (fmlookup m i = Some e \<and> \<not> Online e \<longrightarrow>
      Status (fst (setCommandHandler (SetCommand i c) m)) = StatusServiceUnavailable)
 \<and> (fmlookup m i = Some e \<and> \<not> Sub n (LastSeen e) < t
      \<and> (\<forall>ev \<in> set evs. \<not> contacts i ev \<and> notBefore n ev) \<longrightarrow>
      setCommandHandler (SetCommand i c) (run t evs (monitorPass t n m))
        = (Error (''ESP '' @ [CHR 0x27] @ i @ [CHR 0x27] @ '' is offline'')
             StatusServiceUnavailable,
           run t evs (monitorPass t n m)))"
proof (intro conjI impI)
  assume "fmlookup m i = Some e \<and> Online e"
  then show "Status (fst (setCommandHandler (SetCommand i c) m)) = StatusOK"
    by (simp add: setCommandHandler_def SetCommand_def Encode_def)
next
  assume "fmlookup m i = Some e \<and> \<not> Online e"
  then show "Status (fst (setCommandHandler (SetCommand i c) m)) = StatusServiceUnavailable"
    by (simp add: setCommandHandler_def SetCommand_def Error_def)
next
  assume a: "fmlookup m i = Some e \<and> \<not> Sub n (LastSeen e) < t
      \<and> (\<forall>ev \<in> set evs. \<not> contacts i ev \<and> notBefore n ev)"
  let ?e0 = "e\<lparr>Online := Sub n (LastSeen e) < t\<rparr>"
  from a have l0: "fmlookup (monitorPass t n m) i = Some ?e0"
    by (simp add: monitorPass_def)
  from a have off: "\<not> Online ?e0" and ls: "\<not> Sub n (LastSeen ?e0) < t"
    by simp_all
  from a have evs: "\<forall>ev \<in> set evs. \<not> contacts i ev \<and> notBefore n ev"
    by simp
  from run_stays_offline [OF l0 off ls evs]
  obtain e' where "fmlookup (run t evs (monitorPass t n m)) i = Some e'" and "\<not> Online e'"
    by blast
  then show "setCommandHandler (SetCommand i c) (run t evs (monitorPass t n m))
        = (Error (''ESP '' @ [CHR 0x27] @ i @ [CHR 0x27] @ '' is offline'')
             StatusServiceUnavailable,
           run t evs (monitorPass t n m))"
    by (simp add: setCommandHandler_def SetCommand_def)
qed

theorem C4_offline_after_monitor_witness:
  "fmlookup oneOnline ''bedroom''
     = Some \<lparr>ID = ''bedroom'', Command = '''', LastSeen = 7, Online = True\<rparr>
 \<and> Online \<lparr>ID = ''bedroom'', Command = '''', LastSeen = 7, Online = True\<rparr>
 \<and> Status (fst (setCommandHandler (SetCommand ''bedroom'' ''force'') oneOnline)) = StatusOK
 \<and> \<not> Sub 40 (LastSeen \<lparr>ID = ''bedroom'', Command = '''', LastSeen = 7, Online = True\<rparr>) < 30
 \<and> \<not> contacts ''bedroom'' (RegisterEv (Register ''attic'') 41)
 \<and> \<not> contacts ''bedroom'' (PollEv (PollAndClear ''attic'') 45)
 \<and> \<not> contacts ''bedroom'' (SetCommandEv (SetCommand ''bedroom'' ''pulse''))
 \<and> \<not> contacts ''bedroom'' (MonitorEv 50)
 \<and> notBefore 40 (MonitorEv 50)
 \<and> Status (fst (setCommandHandler (SetCommand ''bedroom'' ''force'')
      (run 30 [RegisterEv (Register ''attic'') 41, PollEv (PollAndClear ''attic'') 45,
               SetCommandEv (SetCommand ''bedroom'' ''pulse''), MonitorEv 50]
         (monitorPass 30 40 oneOnline))))
      = StatusServiceUnavailable"
proof -
  have h1: "fmlookup oneOnline ''bedroom''
              = Some \<lparr>ID = ''bedroom'', Command = '''', LastSeen = 7, Online = True\<rparr>"
    by (simp add: oneOnline_def)
  have h2: "Online \<lparr>ID = ''bedroom'', Command = '''', LastSeen = 7, Online = True\<rparr>"
    by simp
  have h3: "\<not> Sub 40 (LastSeen \<lparr>ID = ''bedroom'', Command = '''', LastSeen = 7, Online = True\<rparr>) < 30"
    by (simp add: Sub_def maxDuration_def minDuration_def)
  have h4: "\<forall>ev \<in> set [RegisterEv (Register ''attic'') 41, PollEv (PollAndClear ''attic'') 45,
                  SetCommandEv (SetCommand ''bedroom'' ''pulse''), MonitorEv 50].
       \<not> contacts ''bedroom'' ev \<and> notBefore 40 ev"
    by (simp add: Register_def PollAndClear_def)
  from C4_offline_after_monitor
    [where m = oneOnline and i = "''bedroom''" and c = "''force''" and t = 30 and n = 40
       and e = "\<lparr>ID = ''bedroom'', Command = '''', LastSeen = 7, Online = True\<rparr>"
       and evs = "[RegisterEv (Register ''attic'') 41, PollEv (PollAndClear ''attic'') 45,
                   SetCommandEv (SetCommand ''bedroom'' ''pulse''), MonitorEv 50]"]
    h1 h2 h3 h4
  have "Status (fst (setCommandHandler (SetCommand ''bedroom'' ''force'') oneOnline)) = StatusOK"
    and "setCommandHandler (SetCommand ''bedroom'' ''force'')
      (run 30 [RegisterEv (Register ''attic'') 41, PollEv (PollAndClear ''attic'') 45,
               SetCommandEv (SetCommand ''bedroom'' ''pulse''), MonitorEv 50]
         (monitorPass 30 40 oneOnline))
      = (Error (''ESP '' @ [CHR 0x27] @ ''bedroom'' @ [CHR 0x27] @ '' is offline'')
           StatusServiceUnavailable,
         run 30 [RegisterEv (Register ''attic'') 41, PollEv (PollAndClear ''attic'') 45,
               SetCommandEv (SetCommand ''bedroom'' ''pulse''), MonitorEv 50]
           (monitorPass 30 40 oneOnline))"
    by blast+
  with h1 h2 h3 show ?thesis by (simp add: Error_def Register_def PollAndClear_def)
qed

subsection \<open>Methods\<close>

text \<open>
  C7, as stated: every handler rejects a wrong method with 405 and leaves the registry
  alone, the poll endpoint included. \<open>commandHandler\<close> does not look at the method: a
  POST to /command for a registered device is answered 200 and consumes the pending command.
\<close>

theorem C7_poll_by_post_counterexample:
  "commandHandler \<lparr>Method = MethodPost, QueryID = ''a'', Body = None :: unit option\<rparr> 2
     (run 30 [RegisterEv (Register ''a'') 0, SetCommandEv (SetCommand ''a'' ''pulse'')] fmempty)
     = (Encode StatusOK [(''command'', ''pulse'')],
        fmupd ''a'' \<lparr>ID = ''a'', Command = '''', LastSeen = 2, Online = True\<rparr> fmempty)
 \<and> Status (fst (commandHandler \<lparr>Method = MethodPost, QueryID = ''a'', Body = None :: unit option\<rparr> 2
       (run 30 [RegisterEv (Register ''a'') 0, SetCommandEv (SetCommand ''a'' ''pulse'')] fmempty)))
     \<noteq> StatusMethodNotAllowed
 \<and> fmlookup (snd (commandHandler \<lparr>Method = MethodPost, QueryID = ''a'', Body = None :: unit option\<rparr> 2
       (run 30 [RegisterEv (Register ''a'') 0, SetCommandEv (SetCommand ''a'' ''pulse'')] fmempty))) ''a''
     \<noteq> fmlookup (run 30 [RegisterEv (Register ''a'') 0, SetCommandEv (SetCommand ''a'' ''pulse'')]
           fmempty) ''a''"
  by (simp add: handler_defs)

text \<open>
  C7, amended: the handlers of /register and /set-command reject every request whose method
  is not POST with 405 and leave the registry as it was. The handlers of /command, /list and
  /health do not look at the method: they answer a request of any method as they answer the
  same request with any other method.
\<close>

theorem C7_methods:
  "(Method r \<noteq> MethodPost \<longrightarrow>
      registerHandler r now m = (Error ''only POST allowed'' StatusMethodNotAllowed, m))
 \<and> (Method s \<noteq> MethodPost \<longrightarrow>
      setCommandHandler s m = (Error ''only POST allowed'' StatusMethodNotAllowed, m))
 \<and> commandHandler (q\<lparr>Method := x\<rparr>) now m = commandHandler q now m
 \<and> listHandler (q\<lparr>Method := x\<rparr>) clock m = listHandler q clock m
 \<and> healthHandler (q\<lparr>Method := x\<rparr>) m = healthHandler q m"
  by (simp add: registerHandler_def setCommandHandler_def commandHandler_def listHandler_def
        healthHandler_def)

theorem C7_methods_witness:
  "Method ((Register ''bedroom'')\<lparr>Method := MethodGet\<rparr>) \<noteq> MethodPost
 \<and> registerHandler ((Register ''bedroom'')\<lparr>Method := MethodGet\<rparr>) 9 twoDevices
      = (Error ''only POST allowed'' StatusMethodNotAllowed, twoDevices)
 \<and> Method ((SetCommand ''bedroom'' ''pulse'')\<lparr>Method := MethodGet\<rparr>) \<noteq> MethodPost
 \<and> setCommandHandler ((SetCommand ''bedroom'' ''pulse'')\<lparr>Method := MethodGet\<rparr>) twoDevices
      = (Error ''only POST allowed'' StatusMethodNotAllowed, twoDevices)
 \<and> commandHandler ((PollAndClear ''attic'')\<lparr>Method := MethodPost\<rparr>) 9 twoDevices
      = commandHandler (PollAndClear ''attic'') 9 twoDevices"
proof -
  have h1: "Method ((Register ''bedroom'')\<lparr>Method := MethodGet\<rparr>) \<noteq> MethodPost"
    by simp
  have h2: "Method ((SetCommand ''bedroom'' ''pulse'')\<lparr>Method := MethodGet\<rparr>) \<noteq> MethodPost"
    by simp
  from C7_methods
    [where r = "(Register ''bedroom'')\<lparr>Method := MethodGet\<rparr>" and now = 9
       and m = twoDevices and s = "(SetCommand ''bedroom'' ''pulse'')\<lparr>Method := MethodGet\<rparr>"
       and q = "PollAndClear ''attic''" and x = MethodPost]
    h1 h2
  show ?thesis by blast
qed

subsection \<open>Who clears the online flag\<close>

text \<open>
  A record found after a request to /register, /command or /set-command is online or is the
  record that was there before: none of the three writes \<open>False\<close> to the flag.
\<close>

lemma registerHandler_lookup:
  "fmlookup (snd (registerHandler r now m)) i = Some e' \<Longrightarrow> Online e' \<or> fmlookup m i = Some e'"
  by (auto simp: registerHandler_def split: if_splits option.splits)

lemma commandHandler_lookup:
  "fmlookup (snd (commandHandler q now m)) i = Some e' \<Longrightarrow> Online e' \<or> fmlookup m i = Some e'"
  by (auto simp: commandHandler_def Let_def split: if_splits option.splits)

lemma setCommandHandler_lookup:
  "fmlookup (snd (setCommandHandler s m)) i = Some e' \<Longrightarrow> Online e' \<or> fmlookup m i = Some e'"
  by (auto simp: setCommandHandler_def split: if_splits option.splits prod.splits)

lemma monitorPass_lookup:
  "fmlookup (monitorPass t now m) i
     = map_option (\<lambda>esp. esp\<lparr>Online := Sub now (LastSeen esp) < t\<rparr>) (fmlookup m i)"
  by (simp add: monitorPass_def)

text \<open>No operation removes a device.\<close>

lemma step_keeps_device:
  assumes "fmlookup m i = Some e"
  shows "\<exists>e'. fmlookup (step t ev m) i = Some e'"
proof (cases ev)
  case (RegisterEv r now)
  then show ?thesis using assms
    by (auto simp: registerHandler_def split: option.splits)
next
  case (PollEv q now)
  then show ?thesis using assms
    by (auto simp: commandHandler_def Let_def split: option.splits)
next
  case (SetCommandEv s)
  then show ?thesis using assms
    by (auto simp: setCommandHandler_def split: option.splits prod.splits)
next
  case (ListEv q clock)
  then show ?thesis using assms by (simp add: listHandler_def)
next
  case (HealthEv q)
  then show ?thesis using assms by (simp add: healthHandler_def Let_def)
next
  case (MonitorEv now)
  then show ?thesis using assms by (simp add: monitorPass_lookup)
qed

text \<open>One operation that takes a device from online to offline is a monitor pass.\<close>

lemma step_downgrade:
  assumes "fmlookup m i = Some e" and "Online e"
    and "fmlookup (step t ev m) i = Some e'" and "\<not> Online e'"
  shows "\<exists>now. ev = MonitorEv now \<and> \<not> Sub now (LastSeen e) < t"
proof (cases ev)
  case (RegisterEv r now)
  then show ?thesis using assms registerHandler_lookup [of r now m i e'] by auto
next
  case (PollEv q now)
  then show ?thesis using assms commandHandler_lookup [of q now m i e'] by auto
next
  case (SetCommandEv s)
  then show ?thesis using assms setCommandHandler_lookup [of s m i e'] by auto
next
  case (ListEv q clock)
  then show ?thesis using assms by (simp add: listHandler_def)
next
  case (HealthEv q)
  then show ?thesis using assms by (simp add: healthHandler_def Let_def)
next
  case (MonitorEv now)
  then show ?thesis using assms by (auto simp: monitorPass_lookup)
qed

text \<open>A sequence of operations that takes a device from online to offline holds a monitor pass.\<close>

lemma run_downgrade:
  "fmlookup m i = Some e \<Longrightarrow> Online e \<Longrightarrow> fmlookup (run t evs m) i = Some e' \<Longrightarrow> \<not> Online e'
     \<Longrightarrow> \<exists>now. MonitorEv now \<in> set evs"
proof (induction evs arbitrary: m e)
  case Nil
  then show ?case by simp
next
  case (Cons ev evs)
  obtain e1 where e1: "fmlookup (step t ev m) i = Some e1"
    using step_keeps_device [OF Cons.prems(1)] by blast
  show ?case
  proof (cases "Online e1")
    case True
    from Cons.prems(3) have "fmlookup (run t evs (step t ev m)) i = Some e'" by simp
    from Cons.IH [OF e1 True this Cons.prems(4)] show ?thesis by auto
  next
    case False
    from step_downgrade [OF Cons.prems(1,2) e1 False] show ?thesis by auto
  qed
qed

text \<open>
  C6. Over any sequence of operations, from any registry, a device that was online and is
  offline afterwards has seen a monitor pass in between; a single operation that takes a
  device from online to offline is a monitor pass, at a time when the time since the last
  contact was not below the timeout. A monitor pass sets the flag of every device to
  \<open>Sub now LastSeen < timeout\<close>. A record that is offline after a request to /register or
  to /command is the record that was there before: the two handlers write only \<open>True\<close> to
  the flag.
\<close>

theorem C6_online_cleared_only_by_monitor:
  "(fmlookup m i = Some e \<and> Online e \<and> fmlookup (run t evs m) i = Some e' \<and> \<not> Online e'
      \<longrightarrow> (\<exists>now. MonitorEv now \<in> set evs))
 \<and> (fmlookup m i = Some e \<and> Online e \<and> fmlookup (step t ev m) i = Some e' \<and> \<not> Online e'
      \<longrightarrow> (\<exists>now. ev = MonitorEv now \<and> \<not> Sub now (LastSeen e) < t))
 \<and> (fmlookup m i = Some e
      \<longrightarrow> fmlookup (monitorPass t now m) i = Some (e\<lparr>Online := Sub now (LastSeen e) < t\<rparr>))
 \<and> (fmlookup (snd (registerHandler r now m)) i = Some e' \<and> \<not> Online e'
      \<longrightarrow> fmlookup m i = Some e')
 \<and> (fmlookup (snd (commandHandler q now m)) i = Some e' \<and> \<not> Online e'
      \<longrightarrow> fmlookup m i = Some e')"
proof (intro conjI impI)
  assume "fmlookup m i = Some e \<and> Online e \<and> fmlookup (run t evs m) i = Some e' \<and> \<not> Online e'"
  then show "\<exists>now. MonitorEv now \<in> set evs"
    using run_downgrade by blast
next
  assume "fmlookup m i = Some e \<and> Online e \<and> fmlookup (step t ev m) i = Some e' \<and> \<not> Online e'"
  then show "\<exists>now. ev = MonitorEv now \<and> \<not> Sub now (LastSeen e) < t"
    using step_downgrade by blast
next
  assume "fmlookup m i = Some e"
  then show "fmlookup (monitorPass t now m) i = Some (e\<lparr>Online := Sub now (LastSeen e) < t\<rparr>)"
    by (simp add: monitorPass_lookup)
next
  assume "fmlookup (snd (registerHandler r now m)) i = Some e' \<and> \<not> Online e'"
  then show "fmlookup m i = Some e'"
    using registerHandler_lookup by blast
next
  assume "fmlookup (snd (commandHandler q now m)) i = Some e' \<and> \<not> Online e'"
  then show "fmlookup m i = Some e'"
    using commandHandler_lookup by blast
qed

theorem C6_online_cleared_only_by_monitor_witness:
  "fmlookup oneOnline ''bedroom''
     = Some \<lparr>ID = ''bedroom'', Command = '''', LastSeen = 7, Online = True\<rparr>
 \<and> Online \<lparr>ID = ''bedroom'', Command = '''', LastSeen = 7, Online = True\<rparr>
 \<and> fmlookup (run 30 [PollEv (PollAndClear ''bedroom'') 9, MonitorEv 40] oneOnline) ''bedroom''
     = Some \<lparr>ID = ''bedroom'', Command = '''', LastSeen = 9, Online = False\<rparr>
 \<and> \<not> Online \<lparr>ID = ''bedroom'', Command = '''', LastSeen = 9, Online = False\<rparr>
 \<and> (\<exists>now. MonitorEv now \<in> set [PollEv (PollAndClear ''bedroom'') 9, MonitorEv 40])
 \<and> fmlookup (snd (registerHandler (Register ''bedroom'') 50 twoDevices)) ''attic''
     = Some \<lparr>ID = ''attic'', Command = ''force'', LastSeen = 2, Online = False\<rparr>
 \<and> fmlookup twoDevices ''attic''
     = Some \<lparr>ID = ''attic'', Command = ''force'', LastSeen = 2, Online = False\<rparr>"
proof -
  have h1: "fmlookup oneOnline ''bedroom''
     = Some \<lparr>ID = ''bedroom'', Command = '''', LastSeen = 7, Online = True\<rparr>"
    by (simp add: oneOnline_def)
  have h2: "Online \<lparr>ID = ''bedroom'', Command = '''', LastSeen = 7, Online = True\<rparr>"
    by simp
  have h3: "fmlookup (run 30 [PollEv (PollAndClear ''bedroom'') 9, MonitorEv 40] oneOnline) ''bedroom''
     = Some \<lparr>ID = ''bedroom'', Command = '''', LastSeen = 9, Online = False\<rparr>"
    by (simp add: oneOnline_def handler_defs)
  have h4: "\<not> Online \<lparr>ID = ''bedroom'', Command = '''', LastSeen = 9, Online = False\<rparr>"
    by simp
  have h5: "fmlookup (snd (registerHandler (Register ''bedroom'') 50 twoDevices)) ''attic''
     = Some \<lparr>ID = ''attic'', Command = ''force'', LastSeen = 2, Online = False\<rparr>"
    by (simp add: twoDevices_def registerHandler_def Register_def)
  have h6: "\<not> Online \<lparr>ID = ''attic'', Command = ''force'', LastSeen = 2, Online = False\<rparr>"
    by simp
  from C6_online_cleared_only_by_monitor
    [where m = oneOnline and i = "''bedroom''" and t = 30
       and e = "\<lparr>ID = ''bedroom'', Command = '''', LastSeen = 7, Online = True\<rparr>"
       and e' = "\<lparr>ID = ''bedroom'', Command = '''', LastSeen = 9, Online = False\<rparr>"
       and evs = "[PollEv (PollAndClear ''bedroom'') 9, MonitorEv 40]"]
    h1 h2 h3 h4
  have a: "\<exists>now. MonitorEv now \<in> set [PollEv (PollAndClear ''bedroom'') 9, MonitorEv 40]"
    by blast
  from C6_online_cleared_only_by_monitor
    [where m = twoDevices and i = "''attic''" and r = "Register ''bedroom''" and now = 50
       and e' = "\<lparr>ID = ''attic'', Command = ''force'', LastSeen = 2, Online = False\<rparr>"]
    h5 h6
  have b: "fmlookup twoDevices ''attic''
     = Some \<lparr>ID = ''attic'', Command = ''force'', LastSeen = 2, Online = False\<rparr>"
    by blast
  from h1 h2 h3 h4 a h5 b show ?thesis by blast
qed

end
